theory Spec2Isabelle
  imports Main "HOL-Library.Sublist" "HOL-Library.AList"
begin

section \<open>Python values used by check\_crab\_jobs.py\<close>

text \<open>
  The exceptions of the paths modelled here: \<open>ValueError\<close> (explicit \<open>raise\<close>,
  \<open>int\<close> of a non-number, \<open>np.max\<close> of an empty list), \<open>KeyError\<close> (subscript of a
  dict with a missing key), \<open>TypeError\<close> (iterating \<open>None\<close>), \<open>IndexError\<close>
  (subscript of a list out of range) and \<open>NotImplementedError\<close> (no status file).
\<close>

datatype py_error = ValueError | KeyError | TypeError | IndexError | NotImplementedError

text \<open>
  A dict loaded from JSON is an association list in insertion order; \<open>d[k]\<close> is
  \<open>map_of d k\<close> and iterating \<open>d\<close> runs over \<open>map fst d\<close>. A Python dict has each key
  once; no theorem below needs that.
\<close>

type_synonym 'v dict = "(string \<times> 'v) list"

text \<open>One entry of \<open>status["details"]\<close>: the fields of a job, \<open>"State"\<close> among them.\<close>

type_synonym job_info = "string dict"

text \<open>\<open>d[k]\<close>: the value, or \<open>KeyError\<close>.\<close>

definition subscript :: "'v dict \<Rightarrow> string \<Rightarrow> py_error + 'v" where
  "subscript d k = (case map_of d k of None \<Rightarrow> Inl KeyError | Some v \<Rightarrow> Inr v)"

text \<open>\<open>s.endswith(t)\<close> and \<open>s.startswith(t)\<close>.\<close>

definition endswith :: "string \<Rightarrow> string \<Rightarrow> bool" where
  "endswith s t = suffix t s"

definition startswith :: "string \<Rightarrow> string \<Rightarrow> bool" where
  "startswith s t = prefix t s"

section \<open>check\_job\_outputs\<close>

text \<open>The f-string \<open>f"nano_{x}.root"\<close> for a job id \<open>x\<close> (a key of the status details).\<close>

definition output_name :: "string \<Rightarrow> string" where
  "output_name x = ''nano_'' @ x @ ''.root''"

text \<open>\<open>job_details[x]["State"]\<close>: two subscripts, each of which may raise \<open>KeyError\<close>.\<close>

definition job_state :: "job_info dict \<Rightarrow> string \<Rightarrow> py_error + string" where
  "job_state job_details x =
     (case subscript job_details x of
        Inl e \<Rightarrow> Inl e
      | Inr info \<Rightarrow> subscript info ''State'')"

text \<open>
  \<open>filter(lambda x: job_details[x]["State"] == state, job_details)\<close>, run over the keys
  \<open>ks\<close> in order; the first job without a \<open>"State"\<close> raises. The Python wraps the
  result in \<open>set(...)\<close>; the list here is read only through \<open>set\<close> and membership.
\<close>

fun select_state :: "job_info dict \<Rightarrow> string \<Rightarrow> string list \<Rightarrow> py_error + string list" where
  "select_state job_details state [] = Inr []"
| "select_state job_details state (x # ks) =
     (case job_state job_details x of
        Inl e \<Rightarrow> Inl e
      | Inr s \<Rightarrow>
          (case select_state job_details state ks of
             Inl e \<Rightarrow> Inl e
           | Inr r \<Rightarrow> Inr (if s = state then x # r else r)))"

text \<open>\<open>any(path.endswith(f"nano_{x}.root") for path in job_outputs)\<close>.\<close>

definition has_output :: "string set \<Rightarrow> string \<Rightarrow> bool" where
  "has_output job_outputs x = (\<exists>path \<in> job_outputs. endswith path (output_name x))"

text \<open>
  Lines 120-126: when \<open>job_outputs\<close> is a set and not empty, keep only the ids with an
  output; otherwise (\<open>None\<close>, or the empty set) keep them all.
\<close>

definition restrict_to_outputs :: "string set option \<Rightarrow> string list \<Rightarrow> string list" where
  "restrict_to_outputs job_outputs ids =
     (case job_outputs of
        None \<Rightarrow> ids
      | Some outs \<Rightarrow> if outs \<noteq> {} then filter (has_output outs) ids else ids)"

text \<open>\<open>[input_map[x] for x in relevant_ids]\<close>: a missing job id raises \<open>KeyError\<close>.\<close>

fun lookup_inputs :: "string list dict \<Rightarrow> string list \<Rightarrow> py_error + string list list" where
  "lookup_inputs input_map [] = Inr []"
| "lookup_inputs input_map (x # xs) =
     (case subscript input_map x of
        Inl e \<Rightarrow> Inl e
      | Inr ls \<Rightarrow>
          (case lookup_inputs input_map xs of
             Inl e \<Rightarrow> Inl e
           | Inr r \<Rightarrow> Inr (ls # r)))"

text \<open>
  \<open>check_job_outputs\<close> mutates \<open>collector_set\<close> in place and returns nothing. The model
  returns the set after the call (\<open>Inr\<close>), or the exception together with the set as it
  is when the exception leaves the function (\<open>Inl\<close>). The global \<open>verbosity\<close> only
  selects the text of the \<open>ValueError\<close>.
\<close>

definition check_job_outputs ::
  "string set \<Rightarrow> string list dict \<Rightarrow> job_info dict \<Rightarrow> string \<Rightarrow> string set option
   \<Rightarrow> (py_error \<times> string set) + string set" where
  "check_job_outputs collector_set input_map job_details state job_outputs =
     (case select_state job_details state (map fst job_details) of
        Inl e \<Rightarrow> Inl (e, collector_set)
      | Inr ids \<Rightarrow>
          (let relevant_ids = restrict_to_outputs job_outputs ids in
           if state = ''failed'' then
             (case job_outputs of
                None \<Rightarrow> Inl (TypeError, collector_set)
              | Some outs \<Rightarrow>
                  Inr (collector_set \<union>
                       {x \<in> outs. \<exists>i \<in> set relevant_ids. endswith x (output_name i)}))
           else if state = ''finished'' then
             (case lookup_inputs input_map relevant_ids of
                Inl e \<Rightarrow> Inl (e, collector_set)
              | Inr lss \<Rightarrow>
                  (let lfns = set (concat lss);
                       overlap = collector_set \<inter> lfns
                   in if overlap \<noteq> {} then Inl (ValueError, collector_set)
                      else Inr (collector_set \<union> lfns)))
           else Inr collector_set))"

section \<open>Python string and path helpers\<close>

text \<open>\<open>s.split(c)\<close> for a one-character separator: never empty, \<open>"".split(c) = [""]\<close>.\<close>

fun split_on :: "char \<Rightarrow> string \<Rightarrow> string list" where
  "split_on c [] = [[]]"
| "split_on c (x # xs) =
     (if x = c then [] # split_on c xs
      else (case split_on c xs of
              [] \<Rightarrow> [[x]]
            | w # ws \<Rightarrow> (x # w) # ws))"

text \<open>\<open>sep.join(xs)\<close>.\<close>

fun join_with :: "string \<Rightarrow> string list \<Rightarrow> string" where
  "join_with sep [] = []"
| "join_with sep [x] = x"
| "join_with sep (x # y # ys) = x @ sep @ join_with sep (y # ys)"

text \<open>\<open>s.strip(os.path.sep)\<close>: every leading and every trailing \<open>/\<close> goes.\<close>

definition strip_sep :: "string \<Rightarrow> string" where
  "strip_sep s =
     rev (dropWhile (\<lambda>c. c = CHR ''/'') (rev (dropWhile (\<lambda>c. c = CHR ''/'') s)))"

text \<open>\<open>os.path.basename(p)\<close> (posixpath): what follows the last \<open>/\<close>.\<close>

definition basename :: "string \<Rightarrow> string" where
  "basename p = last (split_on CHR ''/'' p)"

text \<open>
  \<open>os.path.join(a, b)\<close> (posixpath): an absolute \<open>b\<close> replaces \<open>a\<close>; no separator is
  added after an empty \<open>a\<close> or one that ends in \<open>/\<close>.
\<close>

definition path_join :: "string \<Rightarrow> string \<Rightarrow> string" where
  "path_join a b =
     (if startswith b ''/'' then b
      else if a = [] \<or> endswith a ''/'' then a @ b
      else a @ ''/'' @ b)"

text \<open>
  \<open>os.path.normpath\<close> (posixpath). \<open>norm_comps\<close> is its loop over the components:
  \<open>init\<close> is the truth value of \<open>initial_slashes\<close>, \<open>new\<close> is \<open>new_comps\<close>.
\<close>

fun norm_comps :: "bool \<Rightarrow> string list \<Rightarrow> string list \<Rightarrow> string list" where
  "norm_comps init new [] = new"
| "norm_comps init new (part # comps) =
     (if part = [] \<or> part = ''.'' then norm_comps init new comps
      else if part \<noteq> ''..'' \<or> (\<not> init \<and> new = []) \<or> (new \<noteq> [] \<and> last new = ''..'')
        then norm_comps init (new @ [part]) comps
      else if new \<noteq> [] then norm_comps init (butlast new) comps
      else norm_comps init new comps)"

definition normpath :: "string \<Rightarrow> string" where
  "normpath path =
     (if path = [] then ''.''
      else
        (let initial_slashes =
               (if startswith path ''/''
                then (if startswith path ''//'' \<and> \<not> startswith path ''///''
                      then 2 else 1)
                else (0::nat));
             comps = norm_comps (initial_slashes \<noteq> 0) [] (split_on CHR ''/'' path);
             p = replicate initial_slashes CHR ''/'' @ join_with ''/'' comps
         in if p = [] then ''.'' else p))"

text \<open>\<open>os.path.abspath(path)\<close>, with the current directory \<open>os.getcwd()\<close> as \<open>cwd\<close>.\<close>

definition abspath :: "string \<Rightarrow> string \<Rightarrow> string" where
  "abspath cwd path =
     normpath (if startswith path ''/'' then path else path_join cwd path)"

text \<open>
  \<open>int(x)\<close> for a string of ASCII characters: white space around, an optional sign,
  decimal digits with single underscores between them; anything else raises
  \<open>ValueError\<close>.
\<close>

definition is_digit :: "char \<Rightarrow> bool" where
  "is_digit c = (c \<in> set ''0123456789'')"

definition digit_val :: "char \<Rightarrow> nat" where
  "digit_val c = of_char c - 48"

definition is_space :: "char \<Rightarrow> bool" where
  "is_space c =
     (c \<in> set [CHR '' '', CHR 0x09, CHR 0x0A, CHR 0x0B, CHR 0x0C, CHR 0x0D,
               CHR 0x1C, CHR 0x1D, CHR 0x1E, CHR 0x1F])"

fun parse_digits :: "nat \<Rightarrow> string \<Rightarrow> nat option" where
  "parse_digits acc [] = Some acc"
| "parse_digits acc (c # cs) =
     (if is_digit c then parse_digits (10 * acc + digit_val c) cs
      else if c = CHR ''_'' \<and> cs \<noteq> [] \<and> is_digit (hd cs) then parse_digits acc cs
      else None)"

definition parse_nat :: "string \<Rightarrow> nat option" where
  "parse_nat s =
     (case s of
        [] \<Rightarrow> None
      | c # cs \<Rightarrow> if is_digit c then parse_digits 0 s else None)"

definition py_int :: "string \<Rightarrow> py_error + int" where
  "py_int x =
     (let t = rev (dropWhile is_space (rev (dropWhile is_space x)));
          r = (case t of
                 [] \<Rightarrow> None
               | c # cs \<Rightarrow>
                   if c = CHR ''-'' then map_option (\<lambda>n. - int n) (parse_nat cs)
                   else if c = CHR ''+'' then map_option int (parse_nat cs)
                   else map_option int (parse_nat t))
      in case r of None \<Rightarrow> Inl ValueError | Some n \<Rightarrow> Inr n)"

text \<open>\<open>str(n)\<close> and \<open>f"{i:04d}"\<close> for a number that is not negative.\<close>

fun decimal :: "nat \<Rightarrow> string" where
  "decimal n =
     (if n < 10 then [char_of (48 + n)]
      else decimal (n div 10) @ [char_of (48 + n mod 10)])"

declare decimal.simps [simp del]

definition fmt04d :: "nat \<Rightarrow> string" where
  "fmt04d i = replicate (4 - length (decimal i)) CHR ''0'' @ decimal i"

section \<open>The outside world and the accumulated state\<close>

text \<open>
  What \<open>status.json\<close> holds, as far as the script reads it: \<open>status.get("project_dir")\<close>,
  \<open>status.get("details", dict())\<close> and \<open>status.get("task_name")\<close>. \<open>None\<close> is a
  missing key. (\<open>n_jobs_total\<close> is read and never used.)
\<close>

record status =
  project_dir :: "string option"
  details :: "job_info dict option"
  task_name :: "string option"

text \<open>One entry of the file list of the DBS client (\<open>api.listFiles\<close>).\<close>

record dbs_file =
  logical_file_name :: string
  is_file_valid :: bool

text \<open>
  Everything the script reads from outside: the file system (\<open>os.getcwd\<close>,
  \<open>os.path.exists\<close>, the JSON files), the storage element (the \<open>gfal2\<close> module and
  \<open>ctx.listdir\<close>, \<open>None\<close> when it raises), the sample configuration (the YAML file),
  the DBS client (\<open>None\<close> when the import failed) and the \<open>dasgoclient\<close> query: the
  values of the requested key in the dataset entries of its output, \<open>None\<close> when the
  output is not JSON. \<open>verbosity\<close> is the script's global of that name.
\<close>

record world =
  getcwd :: string
  path_exists :: "string \<Rightarrow> bool"
  json_inputs :: "string \<Rightarrow> string list dict"
  json_status :: "string \<Rightarrow> status"
  gfal2_loaded :: bool
  listdir :: "string \<Rightarrow> string list option"
  sample_config_yaml :: "string dict dict"
  dbs_api :: "(string option \<Rightarrow> dbs_file list) option"
  dasgoclient :: "string option \<Rightarrow> int list option"
  verbosity :: int

text \<open>
  The calls to the outside, in the order they are made: \<open>os.path.exists(p)\<close>, a JSON
  file opened and loaded, and \<open>load_remote_output(p)\<close>.
\<close>

datatype io_event = PathExists string | JsonLoad string | RemoteListing string

text \<open>
  The three sets \<open>main\<close> creates for a sample and hands to every call of
  \<open>check_crab_directory\<close>, which updates them in place, and the log of calls.
\<close>

record crab_state =
  known_lfns :: "string set"
  done_lfns :: "string set"
  failed_job_outputs :: "string set"
  io_log :: "io_event list"

definition add_events :: "io_event list \<Rightarrow> crab_state \<Rightarrow> crab_state" where
  "add_events evs st = st\<lparr>io_log := io_log st @ evs\<rparr>"

section \<open>Loading an attempt\<close>

text \<open>
  \<open>load_remote_output\<close>: the empty list without \<open>gfal2\<close> or when the listing raises,
  else every listed name joined to the path. (With \<open>verbosity\<close> at 1 or more a
  listing that raises also prints a line and opens an interactive IPython shell, which
  is outside the model.)
\<close>

definition load_remote_output :: "world \<Rightarrow> string \<Rightarrow> string list" where
  "load_remote_output w wlcg_path =
     (if \<not> gfal2_loaded w then []
      else (case listdir w wlcg_path of
              None \<Rightarrow> []
            | Some filelist \<Rightarrow> map (path_join wlcg_path) filelist))"

text \<open>\<open>get_job_inputs\<close>: \<open>None\<close> when the file does not exist; with the calls it made.\<close>

definition get_job_inputs ::
  "world \<Rightarrow> string \<Rightarrow> string \<Rightarrow> string list dict option \<times> io_event list" where
  "get_job_inputs w crab_dir job_input_file =
     (let path = path_join crab_dir job_input_file in
      if \<not> path_exists w path then (None, [PathExists path])
      else (Some (json_inputs w path), [PathExists path, JsonLoad path]))"

text \<open>\<open>get_status\<close>: the status file of the attempt, else \<open>status.json\<close>, else an error.\<close>

definition get_status ::
  "world \<Rightarrow> string \<Rightarrow> string \<Rightarrow> (py_error + status) \<times> io_event list" where
  "get_status w sample_dir status_file =
     (let status_path = path_join sample_dir (status_file @ ''.json'');
          backup_status_path = path_join sample_dir ''status.json''
      in if path_exists w status_path
         then (Inr (json_status w status_path), [PathExists status_path, JsonLoad status_path])
         else if path_exists w backup_status_path
         then (Inr (json_status w backup_status_path),
               [PathExists status_path, PathExists backup_status_path,
                JsonLoad backup_status_path])
         else (Inl NotImplementedError,
               [PathExists status_path, PathExists backup_status_path]))"

text \<open>
  \<open>check_status\<close>: \<open>not status_project_dir\<close> holds for \<open>None\<close> and for the empty
  string.
\<close>

definition check_status :: "string \<Rightarrow> status \<Rightarrow> string \<Rightarrow> py_error + unit" where
  "check_status cwd status crab_dir =
     (let status_project_dir = project_dir status;
          abs_crab_dir = abspath cwd crab_dir
      in if (status_project_dir = None \<or> status_project_dir = Some [])
            \<or> \<not> (status_project_dir = Some abs_crab_dir)
         then Inl ValueError
         else Inr ())"

text \<open>\<open>load_das_key\<close>: the \<open>miniAOD\<close> entry of the sample in the configuration.\<close>

definition load_das_key :: "world \<Rightarrow> string \<Rightarrow> string option" where
  "load_das_key w sample_name =
     (let sample_info = (case map_of (sample_config_yaml w) sample_name of
                           None \<Rightarrow> []
                         | Some info \<Rightarrow> info)
      in if length sample_info = 0 then None else map_of sample_info ''miniAOD'')"

text \<open>\<open>get_campaign_name\<close>: \<open>das_key.split("/")[1]\<close>, the empty string for \<open>None\<close>.\<close>

definition get_campaign_name :: "string option \<Rightarrow> py_error + string" where
  "get_campaign_name das_key =
     (case das_key of
        None \<Rightarrow> Inr []
      | Some k \<Rightarrow>
          (case split_on CHR ''/'' k of
             a # b # rest \<Rightarrow> Inr b
           | _ \<Rightarrow> Inl IndexError))"

section \<open>check\_crab\_directory\<close>

text \<open>Lines 379-381: the name of the attempt directory.\<close>

definition crab_dirname_of :: "string \<Rightarrow> string \<Rightarrow> string" where
  "crab_dirname_of sample_name dir_suffix =
     (let suffix' = (if \<not> dir_suffix = [] \<and> \<not> startswith dir_suffix ''_''
                     then ''_'' @ dir_suffix else dir_suffix)
      in ''crab_'' @ sample_name @ suffix')"

text \<open>
  Lines 400-428: an empty \<open>known_lfns\<close> takes the attempt's LFNs as the baseline; LFNs
  that are still unknown after that are added. Both \<open>raise\<close> statements of this block
  are commented out in the source, and the message it builds is never printed, so
  neither \<open>verbosity\<close> nor anything else makes this block fail. (With
  \<open>verbosity\<close> not 0 the source opens an interactive IPython shell first, which is
  outside the model.)
\<close>

definition update_known_lfns :: "string set \<Rightarrow> string set \<Rightarrow> string set" where
  "update_known_lfns known flat_lfns =
     (let known1 = (if known = {} then known \<union> flat_lfns else known);
          unknown_lfns = flat_lfns - known1
      in if unknown_lfns \<noteq> {} then known1 \<union> flat_lfns else known1)"

text \<open>
  \<open>wlcg_template.format(...)\<close>: the module joins the four placeholders with
  \<open>os.path.join\<close> when it is loaded, which puts one \<open>/\<close> between them.
\<close>

definition wlcg_template_format ::
  "string \<Rightarrow> string \<Rightarrow> string \<Rightarrow> string \<Rightarrow> string \<Rightarrow> string" where
  "wlcg_template_format wlcg_prefix wlcg_dir sample_name crab_dirname time_stamp =
     wlcg_prefix @ wlcg_dir @ ''/'' @ sample_name @ ''/'' @ crab_dirname @ ''/'' @ time_stamp"

text \<open>
  Lines 446-457: the time stamp is the part of \<open>task_name\<close> before the first colon; a
  missing or empty \<open>task_name\<close> raises \<open>ValueError\<close>, and \<open>get_campaign_name\<close> may
  raise.
\<close>

definition this_wlcg_template_of ::
  "string \<Rightarrow> string \<Rightarrow> string option \<Rightarrow> string \<Rightarrow> status \<Rightarrow> py_error + string" where
  "this_wlcg_template_of wlcg_prefix wlcg_dir das_key crab_dirname status =
     (case task_name status of
        None \<Rightarrow> Inl ValueError
      | Some tn \<Rightarrow>
          if tn = [] then Inl ValueError
          else (case split_on CHR '':'' tn of
                  [] \<Rightarrow> Inl IndexError
                | time_stamp # rest \<Rightarrow>
                    (case get_campaign_name das_key of
                       Inl e \<Rightarrow> Inl e
                     | Inr campaign \<Rightarrow>
                         Inr (wlcg_template_format wlcg_prefix wlcg_dir campaign
                                crab_dirname time_stamp))))"

text \<open>\<open>[int(x) for x in job_details.keys()]\<close>.\<close>

fun parse_job_ids :: "string list \<Rightarrow> py_error + int list" where
  "parse_job_ids [] = Inr []"
| "parse_job_ids (x # xs) =
     (case py_int x of
        Inl e \<Rightarrow> Inl e
      | Inr n \<Rightarrow>
          (case parse_job_ids xs of
             Inl e \<Rightarrow> Inl e
           | Inr ns \<Rightarrow> Inr (n # ns)))"

text \<open>Line 463: \<open>np.max\<close> of the job ids; \<open>np.max\<close> of an empty list raises \<open>ValueError\<close>.\<close>

definition max_jobid_of :: "job_info dict \<Rightarrow> py_error + int" where
  "max_jobid_of job_details =
     (case parse_job_ids (map fst job_details) of
        Inl e \<Rightarrow> Inl e
      | Inr [] \<Rightarrow> Inl ValueError
      | Inr (n # ns) \<Rightarrow> Inr (fold max ns n))"

text \<open>
  \<open>int(a / b)\<close> for \<open>b > 0\<close>: the quotient truncated towards zero. (The source divides
  in floating point, which agrees with this for every job id below \<open>10^12\<close>.)
\<close>

definition trunc_div :: "int \<Rightarrow> int \<Rightarrow> int" where
  "trunc_div a b = (if 0 \<le> a then a div b else - ((- a) div b))"

text \<open>
  Lines 468-475: the paths the loop hands to \<open>load_remote_output\<close>, for
  \<open>i\<close> in \<open>range(int(max_jobid/1000)+1)\<close>.
\<close>

definition block_paths :: "string \<Rightarrow> int \<Rightarrow> string list" where
  "block_paths this_wlcg_template max_jobid =
     map (\<lambda>i. path_join this_wlcg_template (fmt04d i))
       [0 ..< nat (trunc_div max_jobid 1000 + 1)]"

text \<open>
  The arguments of \<open>check_crab_directory\<close>; \<open>dir_suffix\<close> is the source's \<open>suffix\<close>,
  and \<open>pbar\<close>, the progress bar, is left out.
\<close>

record crab_args =
  sample_dir :: string
  sample_name :: string
  dir_suffix :: string
  das_key :: "string option"
  status_file :: string
  wlcg_dir :: string
  wlcg_prefix :: string
  job_input_file :: string

text \<open>
  \<open>check_crab_directory\<close> returns nothing and updates the three sets in place. The
  model returns the state after the call (\<open>Inr\<close>), or the exception with the state at
  the moment it is raised (\<open>Inl\<close>). The body is cut in three at the source's blank
  lines.

  Lines 477-493: the two calls of \<open>check_job_outputs\<close>, failed jobs first.
\<close>

definition classify_jobs ::
  "string list dict \<Rightarrow> job_info dict \<Rightarrow> string set \<Rightarrow> crab_state
   \<Rightarrow> (py_error \<times> crab_state) + crab_state" where
  "classify_jobs input_map job_details job_outputs st =
     (case check_job_outputs (failed_job_outputs st) input_map job_details ''failed''
             (Some job_outputs) of
        Inl (e, c) \<Rightarrow> Inl (e, st\<lparr>failed_job_outputs := c\<rparr>)
      | Inr c \<Rightarrow>
          (let st' = st\<lparr>failed_job_outputs := c\<rparr> in
           case check_job_outputs (done_lfns st') input_map job_details ''finished''
                  (Some job_outputs) of
             Inl (e, d) \<Rightarrow> Inl (e, st'\<lparr>done_lfns := d\<rparr>)
           | Inr d \<Rightarrow> Inr (st'\<lparr>done_lfns := d\<rparr>)))"

text \<open>
  Lines 398-475, then the classification: the check of the known LFNs, the status and
  its checks, the remote path, the listing of the blocks.
\<close>

definition process_attempt ::
  "world \<Rightarrow> crab_args \<Rightarrow> string \<Rightarrow> string \<Rightarrow> string list dict \<Rightarrow> crab_state
   \<Rightarrow> (py_error \<times> crab_state) + crab_state" where
  "process_attempt w a crab_dirname crab_dir input_map st =
     (let flat_lfns = set (concat (map snd input_map));
          st3 = st\<lparr>known_lfns := update_known_lfns (known_lfns st) flat_lfns\<rparr>
      in
      case get_status w (sample_dir a) (status_file a) of
        (sres, evs) \<Rightarrow>
          (let st4 = add_events evs st3 in
           case sres of
             Inl e \<Rightarrow> Inl (e, st4)
           | Inr status \<Rightarrow>
               (case check_status (getcwd w) status crab_dir of
                  Inl e \<Rightarrow> Inl (e, st4)
                | Inr u \<Rightarrow>
                    (let job_details = (case details status of None \<Rightarrow> [] | Some d \<Rightarrow> d) in
                     case this_wlcg_template_of (wlcg_prefix a) (wlcg_dir a) (das_key a)
                            crab_dirname status of
                       Inl e \<Rightarrow> Inl (e, st4)
                     | Inr this_wlcg_template \<Rightarrow>
                         (case max_jobid_of job_details of
                            Inl e \<Rightarrow> Inl (e, st4)
                          | Inr max_jobid \<Rightarrow>
                              (let paths = block_paths this_wlcg_template max_jobid;
                                   job_outputs = set (concat (map (load_remote_output w) paths));
                                   st5 = add_events (map RemoteListing paths) st4
                               in classify_jobs input_map job_details job_outputs st5))))))"

text \<open>
  Lines 378-395: a directory that does not exist, and an input map that is missing or
  empty, end the call with the sets as they are.
\<close>

definition check_crab_directory ::
  "world \<Rightarrow> crab_args \<Rightarrow> crab_state \<Rightarrow> (py_error \<times> crab_state) + crab_state" where
  "check_crab_directory w a st =
     (let crab_dirname = crab_dirname_of (sample_name a) (dir_suffix a);
          crab_dir = path_join (sample_dir a) crab_dirname;
          st1 = add_events [PathExists crab_dir] st
      in
      if \<not> path_exists w crab_dir then Inr st1
      else
        (case get_job_inputs w crab_dir (job_input_file a) of
           (inp, evs) \<Rightarrow>
             (let st2 = add_events evs st1 in
              case inp of
                None \<Rightarrow> Inr st2
              | Some input_map \<Rightarrow>
                  if input_map = [] then Inr st2
                  else process_attempt w a crab_dirname crab_dir input_map st2)))"

section \<open>main\<close>

text \<open>\<open>get_dbs_lfns\<close>: the valid files of the dataset, the empty set without the client.\<close>

definition get_dbs_lfns :: "world \<Rightarrow> string option \<Rightarrow> string set" where
  "get_dbs_lfns w key =
     (case dbs_api w of
        None \<Rightarrow> {}
      | Some listFiles \<Rightarrow>
          set (map logical_file_name (filter is_file_valid (listFiles key))))"

text \<open>
  \<open>get_das_information\<close> with its default arguments: the one value found, and the
  default \<open>-1\<close> when the output is not JSON or holds no value or several.
\<close>

definition get_das_information :: "world \<Rightarrow> string option \<Rightarrow> int" where
  "get_das_information w key =
     (case dasgoclient w key of
        None \<Rightarrow> - 1
      | Some vs \<Rightarrow>
          (case remdups vs of
             [v] \<Rightarrow> v
           | _ \<Rightarrow> - 1))"

text \<open>The arguments of \<open>main\<close> that the reconciliation reads.\<close>

record main_args =
  sample_dirs :: "string list"
  main_wlcg_dir :: string
  main_wlcg_prefix :: string
  suffices :: "string list"
  status_files :: "string list"
  dump_filelists :: bool

text \<open>
  The entry of \<open>meta_infos\<close> for one sample. \<open>done_count\<close> is the key \<open>"done"\<close> and
  \<open>outputs_from_failed_jobs\<close> the key \<open>"outputs from failed jobs"\<close>; the four lists
  are there with \<open>dump_filelists\<close> only.
\<close>

record sample_report =
  das_total :: int
  total :: int
  done_count :: int
  outputs_from_failed_jobs :: int
  missing :: int
  total_lfns :: "string set option"
  done_lfns_list :: "string set option"
  missing_lfns :: "string set option"
  failed_outputs :: "string set option"

text \<open>Lines 623-637: the loop over \<open>zip(suffices, status_files)\<close>.\<close>

fun cascade ::
  "world \<Rightarrow> crab_args \<Rightarrow> (string \<times> string) list \<Rightarrow> crab_state
   \<Rightarrow> (py_error \<times> crab_state) + crab_state" where
  "cascade w a [] st = Inr st"
| "cascade w a ((sfx, sf) # rest) st =
     (case check_crab_directory w (a\<lparr>dir_suffix := sfx, status_file := sf\<rparr>) st of
        Inl e \<Rightarrow> Inl e
      | Inr st' \<Rightarrow> cascade w a rest st')"

text \<open>Lines 640-653: the report, from the sets as the loop left them.\<close>

definition make_report :: "bool \<Rightarrow> int \<Rightarrow> crab_state \<Rightarrow> sample_report" where
  "make_report dump n_total st =
     (let unprocessed_lfns =
            (known_lfns st - done_lfns st) \<union> (done_lfns st - known_lfns st)
      in \<lparr>das_total = n_total,
          total = int (card (known_lfns st)),
          done_count = int (card (done_lfns st)),
          outputs_from_failed_jobs = int (card (failed_job_outputs st)),
          missing = int (card unprocessed_lfns),
          total_lfns = (if dump then Some (known_lfns st) else None),
          done_lfns_list = (if dump then Some (done_lfns st) else None),
          missing_lfns = (if dump then Some unprocessed_lfns else None),
          failed_outputs = (if dump then Some (failed_job_outputs st) else None)\<rparr>)"

text \<open>
  Lines 595-653, one pass of the loop of \<open>main\<close> for a sample directory that exists:
  the name of the sample, the catalogue, the cascade, the report. An exception of the
  cascade leaves \<open>main\<close>.
\<close>

definition process_sample ::
  "world \<Rightarrow> main_args \<Rightarrow> string \<Rightarrow> io_event list
   \<Rightarrow> (py_error \<times> crab_state) + (string \<times> sample_report \<times> crab_state)" where
  "process_sample w m dir log =
     (let sdir = strip_sep dir;
          sname = basename sdir;
          key = load_das_key w sname;
          known = get_dbs_lfns w key;
          n_total = (if card known > 0 then int (card known)
                     else get_das_information w key);
          a = \<lparr>sample_dir = sdir, sample_name = sname, dir_suffix = [],
               das_key = key, status_file = [], wlcg_dir = main_wlcg_dir m,
               wlcg_prefix = main_wlcg_prefix m,
               job_input_file = ''job_input_files.json''\<rparr>;
          st0 = \<lparr>known_lfns = known, done_lfns = {}, failed_job_outputs = {},
                 io_log = log\<rparr>
      in case cascade w a (zip (suffices m) (status_files m)) st0 of
           Inl e \<Rightarrow> Inl e
         | Inr st \<Rightarrow> Inr (sname, make_report (dump_filelists m) n_total st, st))"

text \<open>
  Lines 590-653: the loop over the sample directories; \<open>meta_infos[sample_name]\<close> is
  assigned at the end of each pass.
\<close>

fun main_loop ::
  "world \<Rightarrow> main_args \<Rightarrow> string list \<Rightarrow> sample_report dict \<times> io_event list
   \<Rightarrow> (py_error \<times> crab_state) + (sample_report dict \<times> io_event list)" where
  "main_loop w m [] acc = Inr acc"
| "main_loop w m (dir # dirs) (meta_infos, log) =
     (if \<not> path_exists w dir then main_loop w m dirs (meta_infos, log @ [PathExists dir])
      else (case process_sample w m dir (log @ [PathExists dir]) of
              Inl e \<Rightarrow> Inl e
            | Inr (sname, rep, st) \<Rightarrow>
                main_loop w m dirs (AList.update sname rep meta_infos, io_log st)))"

text \<open>Lines 670-676: the samples of the second table.\<close>

definition needs_attention :: "sample_report \<Rightarrow> bool" where
  "needs_attention r = (missing r \<noteq> 0 \<or> (das_total r \<noteq> total r \<and> das_total r \<noteq> - 1))"

definition samples_with_missing_lfns :: "sample_report dict \<Rightarrow> string list" where
  "samples_with_missing_lfns meta_infos =
     filter (\<lambda>x. case map_of meta_infos x of
                   None \<Rightarrow> False
                 | Some r \<Rightarrow> needs_attention r)
       (map fst meta_infos)"

text \<open>
  \<open>main\<close>: the summary of every sample and the names of the samples of the second
  table (written only when there is one).
\<close>

definition main ::
  "world \<Rightarrow> main_args
   \<Rightarrow> (py_error \<times> crab_state) + (sample_report dict \<times> string list)" where
  "main w m =
     (case main_loop w m (sample_dirs m) ([], []) of
        Inl e \<Rightarrow> Inl e
      | Inr (meta_infos, log) \<Rightarrow> Inr (meta_infos, samples_with_missing_lfns meta_infos))"

section \<open>Notions used to state the properties\<close>

text \<open>The state a call ends in, whether it returns or raises.\<close>

definition state_of :: "(py_error \<times> 's) + 's \<Rightarrow> 's" where
  "state_of r = (case r of Inl (e, s) \<Rightarrow> s | Inr s \<Rightarrow> s)"


text \<open>
  The specification's reading of the classifier, to be compared with
  \<open>check_job_outputs\<close>: the jobs it selects are the jobs whose declared state is the
  target state and, when the remote output set is given and not empty, whose output
  name ends one of its paths.
\<close>

definition spec_selected :: "job_info dict \<Rightarrow> string \<Rightarrow> string set option \<Rightarrow> string set" where
  "spec_selected job_details state job_outputs =
     {x \<in> fst ` set job_details.
        job_state job_details x = Inr state \<and>
        (case job_outputs of None \<Rightarrow> True | Some outs \<Rightarrow> outs = {} \<or> has_output outs x)}"

text \<open>The specification's union of the input LFNs of the selected finished jobs.\<close>

definition spec_lfns :: "string list dict \<Rightarrow> job_info dict \<Rightarrow> string set option \<Rightarrow> string set" where
  "spec_lfns input_map job_details job_outputs =
     (\<Union>x \<in> spec_selected job_details ''finished'' job_outputs.
        case map_of input_map x of None \<Rightarrow> {} | Some ls \<Rightarrow> set ls)"

text \<open>
  The inputs on which the subscripts of \<open>check_job_outputs\<close> do not raise: every job
  record has a \<open>"State"\<close>, and every selected finished job is a key of the input map.
\<close>

definition well_formed :: "string list dict \<Rightarrow> job_info dict \<Rightarrow> string set option \<Rightarrow> bool" where
  "well_formed input_map job_details job_outputs =
     ((\<forall>x \<in> fst ` set job_details. \<not> isl (job_state job_details x)) \<and>
      (\<forall>x \<in> spec_selected job_details ''finished'' job_outputs. map_of input_map x \<noteq> None))"

section \<open>A sample on disk, for the concrete checks\<close>

text \<open>
  The sample \<open>X\<close> of the specification's scenario: job 1 read \<open>A\<close> and finished with
  its output on the storage element, job 2 read \<open>B\<close> and failed with an output there
  all the same, job 3 read \<open>C\<close> and finished with no output.
\<close>

definition ex_inputs :: "string list dict" where
  "ex_inputs = [(''1'', [''/store/A'']), (''2'', [''/store/B'']), (''3'', [''/store/C''])]"

definition ex_details :: "job_info dict" where
  "ex_details =
     [(''1'', [(''State'', ''finished'')]),
      (''2'', [(''State'', ''failed'')]),
      (''3'', [(''State'', ''finished'')])]"

definition ex_outputs :: "string set" where
  "ex_outputs = {''srm://se/pnfs/Camp/crab_X/230101_1200/0000/nano_1.root'',
                 ''srm://se/pnfs/Camp/crab_X/230101_1200/0000/nano_2.root''}"

definition ex_status :: status where
  "ex_status =
     \<lparr>project_dir = Some ''/work/data/X/crab_X'',
      details = Some ex_details,
      task_name = Some ''230101_1200:user_crab_X''\<rparr>"

text \<open>
  The recovery attempt of the same sample: one job, which read \<open>D\<close>, an LFN that the
  first attempt does not have, and finished with its output.
\<close>

definition ex_status_recovery :: status where
  "ex_status_recovery =
     \<lparr>project_dir = Some ''/work/data/X/crab_X_recovery_1'',
      details = Some [(''1'', [(''State'', ''finished'')])],
      task_name = Some ''230102_0900:user_crab_X_recovery_1''\<rparr>"

definition ex_world :: "string list \<Rightarrow> world" where
  "ex_world present =
     \<lparr>getcwd = ''/work'',
      path_exists = (\<lambda>p. p \<in> set present),
      json_inputs =
        (\<lambda>p. if p = ''data/X/crab_X/job_input_files.json'' then ex_inputs
             else if p = ''data/X/crab_X_recovery_1/job_input_files.json''
             then [(''1'', [''/store/D''])]
             else []),
      json_status =
        (\<lambda>p. if p = ''data/X/status_1.json'' then ex_status_recovery else ex_status),
      gfal2_loaded = True,
      listdir =
        (\<lambda>p. if p = ''srm://se/pnfs/Camp/crab_X/230101_1200/0000''
             then Some [''nano_1.root'', ''nano_2.root'']
             else if p = ''srm://se/pnfs/Camp/crab_X_recovery_1/230102_0900/0000''
             then Some [''nano_1.root'']
             else None),
      sample_config_yaml = [(''X'', [(''miniAOD'', ''/Camp/Run-v1/MINIAODSIM'')])],
      dbs_api = None,
      dasgoclient = (\<lambda>k. Some [3]),
      verbosity = 0\<rparr>"

text \<open>All of both attempts is on disk; and the same with the first attempt missing.\<close>

definition ex_all_present :: "string list" where
  "ex_all_present =
     [''/data/X/'', ''data/X/crab_X'', ''data/X/crab_X/job_input_files.json'',
      ''data/X/status_0.json'', ''data/X/crab_X_recovery_1'',
      ''data/X/crab_X_recovery_1/job_input_files.json'', ''data/X/status_1.json'']"


definition ex_args :: crab_args where
  "ex_args =
     \<lparr>sample_dir = ''data/X'', sample_name = ''X'', dir_suffix = [],
      das_key = Some ''/Camp/Run-v1/MINIAODSIM'', status_file = ''status_0'',
      wlcg_dir = ''/pnfs'', wlcg_prefix = ''srm://se'',
      job_input_file = ''job_input_files.json''\<rparr>"

definition ex_attempts :: "(string \<times> string) list" where
  "ex_attempts = [([], ''status_0''), (''recovery_1'', ''status_1'')]"

definition ex_main_args :: main_args where
  "ex_main_args =
     \<lparr>sample_dirs = [''/data/X/''], main_wlcg_dir = ''/pnfs'',
      main_wlcg_prefix = ''srm://se'', suffices = map fst ex_attempts,
      status_files = map snd ex_attempts, dump_filelists = True\<rparr>"

definition ex_state :: "string set \<Rightarrow> crab_state" where
  "ex_state known =
     \<lparr>known_lfns = known, done_lfns = {}, failed_job_outputs = {}, io_log = []\<rparr>"

text \<open>
  Four entries of \<open>meta_infos\<close>: a complete sample, a complete sample whose
  catalogue total is unknown, a sample with two LFNs missing, and a complete sample
  whose catalogue total differs from the observed one.
\<close>

definition ex_report :: "int \<Rightarrow> int \<Rightarrow> int \<Rightarrow> sample_report" where
  "ex_report das tot dn =
     \<lparr>das_total = das, total = tot, done_count = dn, outputs_from_failed_jobs = 0,
      missing = tot - dn, total_lfns = None, done_lfns_list = None, missing_lfns = None,
      failed_outputs = None\<rparr>"

definition ex_meta_infos :: "sample_report dict" where
  "ex_meta_infos =
     [(''good'', ex_report 5 5 5), (''unknown_total'', ex_report (- 1) 5 5),
      (''incomplete'', ex_report 5 5 3), (''mismatch'', ex_report 7 5 5)]"

text \<open>
  What \<open>main\<close> ends with for the sample when both attempts are on disk: the calls to
  the outside, the three sets and the report.
\<close>

definition ex_final_log :: "io_event list" where
  "ex_final_log =
     [PathExists ''data/X/crab_X'',
      PathExists ''data/X/crab_X/job_input_files.json'',
      JsonLoad ''data/X/crab_X/job_input_files.json'',
      PathExists ''data/X/status_0.json'',
      JsonLoad ''data/X/status_0.json'',
      RemoteListing ''srm://se/pnfs/Camp/crab_X/230101_1200/0000'',
      PathExists ''data/X/crab_X_recovery_1'',
      PathExists ''data/X/crab_X_recovery_1/job_input_files.json'',
      JsonLoad ''data/X/crab_X_recovery_1/job_input_files.json'',
      PathExists ''data/X/status_1.json'',
      JsonLoad ''data/X/status_1.json'',
      RemoteListing ''srm://se/pnfs/Camp/crab_X_recovery_1/230102_0900/0000'']"

definition ex_final_state :: "io_event list \<Rightarrow> crab_state" where
  "ex_final_state log =
     \<lparr>known_lfns = {''/store/A'', ''/store/B'', ''/store/C'', ''/store/D''},
      done_lfns = {''/store/A'', ''/store/D''},
      failed_job_outputs = {''srm://se/pnfs/Camp/crab_X/230101_1200/0000/nano_2.root''},
      io_log = log\<rparr>"

definition ex_final_report :: sample_report where
  "ex_final_report =
     \<lparr>das_total = 3, total = 4, done_count = 2, outputs_from_failed_jobs = 1, missing = 2,
      total_lfns = Some {''/store/A'', ''/store/B'', ''/store/C'', ''/store/D''},
      done_lfns_list = Some {''/store/A'', ''/store/D''},
      missing_lfns = Some {''/store/B'', ''/store/C''},
      failed_outputs = Some {''srm://se/pnfs/Camp/crab_X/230101_1200/0000/nano_2.root''}\<rparr>"


section \<open>Facts about the classifier and the cascade\<close>

lemma not_isl_iff: "(\<not> isl r) = (\<exists>s. r = Inr s)"
  by (cases r) auto

lemma select_state_Inr:
  "select_state jd s ks = Inr r \<Longrightarrow>
     r = filter (\<lambda>x. job_state jd x = Inr s) ks \<and> (\<forall>x \<in> set ks. \<exists>t. job_state jd x = Inr t)"
  by (induction ks arbitrary: r) (auto split: sum.splits if_splits)

lemma select_state_total:
  "(\<forall>x \<in> set ks. \<exists>t. job_state jd x = Inr t) \<Longrightarrow>
     select_state jd s ks = Inr (filter (\<lambda>x. job_state jd x = Inr s) ks)"
  by (induction ks) (auto split: sum.splits)

lemma job_state_error: "job_state jd x = Inl e \<Longrightarrow> e = KeyError"
  by (auto simp: job_state_def subscript_def split: option.splits sum.splits)

lemma select_state_Inl:
  "select_state jd s ks = Inl e \<Longrightarrow> e = KeyError \<and> \<not> (\<forall>x \<in> set ks. \<exists>t. job_state jd x = Inr t)"
  by (induction ks) (auto split: sum.splits dest: job_state_error)

lemma job_state_key: "job_state jd x = Inr s \<Longrightarrow> x \<in> fst ` set jd"
  by (auto simp: job_state_def subscript_def split: option.splits sum.splits dest!: map_of_SomeD intro: rev_image_eqI)

lemma set_restrict_to_outputs:
  "set (restrict_to_outputs outs r) =
     {x \<in> set r. case outs of None \<Rightarrow> True | Some os \<Rightarrow> os = {} \<or> has_output os x}"
  by (auto simp: restrict_to_outputs_def split: option.splits)

lemma lookup_inputs_Inr_map:
  "lookup_inputs im xs = Inr lss \<Longrightarrow>
     (\<forall>x \<in> set xs. map_of im x \<noteq> None) \<and> map Some lss = map (map_of im) xs"
  by (induction xs arbitrary: lss) (auto simp: subscript_def split: sum.splits option.splits)

lemma Union_case_map_Some:
  "map Some lss = map f xs \<Longrightarrow>
     (\<Union>x \<in> set xs. case f x of None \<Rightarrow> {} | Some ls \<Rightarrow> set ls) = set (concat lss)"
proof (induction xs arbitrary: lss)
  case Nil
  then show ?case by simp
next
  case (Cons x xs)
  then obtain l ls where lss: "lss = l # ls" and fx: "f x = Some l" and rest: "map Some ls = map f xs"
    by (cases lss) auto
  show ?case using Cons.IH [OF rest] by (simp add: lss fx)
qed

lemma lookup_inputs_Inr:
  "lookup_inputs im xs = Inr lss \<Longrightarrow>
     set (concat lss) = (\<Union>x \<in> set xs. case map_of im x of None \<Rightarrow> {} | Some ls \<Rightarrow> set ls)
     \<and> (\<forall>x \<in> set xs. map_of im x \<noteq> None)"
  using lookup_inputs_Inr_map [of im xs lss] Union_case_map_Some [of lss "map_of im" xs]
  by simp


lemma lookup_inputs_Inl:
  "lookup_inputs im xs = Inl e \<Longrightarrow> e = KeyError \<and> \<not> (\<forall>x \<in> set xs. map_of im x \<noteq> None)"
  by (induction xs) (auto simp: subscript_def split: sum.splits option.splits)

lemma relevant_ids_spec:
  "select_state jd s (map fst jd) = Inr ids \<Longrightarrow>
     set (restrict_to_outputs outs ids) = spec_selected jd s outs"
  by (drule select_state_Inr) (auto simp: set_restrict_to_outputs spec_selected_def)

lemma finished_Inr_iff:
  "check_job_outputs cs im jd ''finished'' outs = Inr cs' \<longleftrightarrow>
     well_formed im jd outs \<and> cs \<inter> spec_lfns im jd outs = {} \<and> cs' = cs \<union> spec_lfns im jd outs"
proof (cases "select_state jd ''finished'' (map fst jd)")
  case (Inl e)
  then show ?thesis
    using select_state_Inl [OF Inl]
    by (auto simp: check_job_outputs_def well_formed_def not_isl_iff)
next
  case (Inr ids)
  note rel = relevant_ids_spec [OF Inr, of outs]
  have wf1: "\<forall>x \<in> fst ` set jd. \<exists>s. job_state jd x = Inr s"
    using select_state_Inr [OF Inr] by auto
  show ?thesis
  proof (cases "lookup_inputs im (restrict_to_outputs outs ids)")
    case (Inl e)
    then show ?thesis
      using lookup_inputs_Inl [OF Inl] Inr rel
      by (auto simp: check_job_outputs_def well_formed_def not_isl_iff)
  next
    case lss: (Inr lss)
    have "set (concat lss) = spec_lfns im jd outs"
      using lookup_inputs_Inr [OF lss] rel by (simp add: spec_lfns_def)
    moreover have "well_formed im jd outs"
      using lookup_inputs_Inr [OF lss] rel wf1 by (simp add: well_formed_def not_isl_iff)
    ultimately show ?thesis
      using Inr lss by (auto simp: check_job_outputs_def Let_def)
  qed
qed

lemma check_job_outputs_Inl_unchanged:
  "check_job_outputs cs im jd state outs = Inl (e, cs') \<Longrightarrow> cs' = cs"
  by (auto simp: check_job_outputs_def Let_def split: sum.splits option.splits if_splits)



lemma failed_paths_eq:
  "{p \<in> outs. \<exists>i \<in> spec_selected jd ''failed'' (Some outs). endswith p (output_name i)} =
   {p \<in> outs. \<exists>i. job_state jd i = Inr ''failed'' \<and> endswith p (output_name i)}"
proof -
  have "i \<in> spec_selected jd ''failed'' (Some outs)"
    if "p \<in> outs" "job_state jd i = Inr ''failed''" "endswith p (output_name i)" for p i
    using that job_state_key [of jd i "''failed''"]
    by (auto simp: spec_selected_def has_output_def)
  moreover have "job_state jd i = Inr ''failed''"
    if "i \<in> spec_selected jd ''failed'' (Some outs)" for i
    using that by (simp add: spec_selected_def)
  ultimately show ?thesis by blast
qed

lemma failed_Some_Inr:
  "check_job_outputs F im jd ''failed'' (Some outs) = Inr F' \<Longrightarrow>
     F' = F \<union> {p \<in> outs. \<exists>i. job_state jd i = Inr ''failed'' \<and> endswith p (output_name i)}"
proof -
  assume a: "check_job_outputs F im jd ''failed'' (Some outs) = Inr F'"
  then obtain ids where ids: "select_state jd ''failed'' (map fst jd) = Inr ids"
    by (auto simp: check_job_outputs_def split: sum.splits)
  note rel = relevant_ids_spec [OF ids, of "Some outs"]
  from a ids rel show ?thesis
    by (simp add: check_job_outputs_def Let_def failed_paths_eq)
qed

lemma failed_Some_total:
  "(\<forall>x \<in> fst ` set jd. \<exists>s. job_state jd x = Inr s) \<Longrightarrow>
     \<exists>F'. check_job_outputs F im jd ''failed'' (Some outs) = Inr F'"
  using select_state_total [of "map fst jd" jd "''failed''"]
  by (auto simp: check_job_outputs_def Let_def)

lemma failed_None:
  "check_job_outputs cs im jd ''failed'' None =
     (if \<forall>x \<in> fst ` set jd. \<exists>s. job_state jd x = Inr s then Inl (TypeError, cs)
      else Inl (KeyError, cs))"
proof (cases "select_state jd ''failed'' (map fst jd)")
  case (Inl e)
  then show ?thesis using select_state_Inl [OF Inl] by (auto simp: check_job_outputs_def)
next
  case (Inr ids)
  then show ?thesis using select_state_Inr [OF Inr] by (auto simp: check_job_outputs_def Let_def)
qed

lemma classify_jobs_Inr:
  "classify_jobs im jd outs st = Inr st' \<Longrightarrow>
     \<exists>F' D'. check_job_outputs (failed_job_outputs st) im jd ''failed'' (Some outs) = Inr F'
          \<and> check_job_outputs (done_lfns st) im jd ''finished'' (Some outs) = Inr D'
          \<and> st' = st\<lparr>failed_job_outputs := F', done_lfns := D'\<rparr>"
  by (auto simp: classify_jobs_def Let_def split: sum.splits prod.splits)

lemma check_job_outputs_grows:
  "check_job_outputs cs im jd state outs = Inr cs' \<Longrightarrow> cs \<subseteq> cs'"
  by (auto simp: check_job_outputs_def Let_def split: sum.splits option.splits if_splits)

lemma spec_lfns_flat: "spec_lfns im jd outs \<subseteq> set (concat (map snd im))"
  by (auto simp: spec_lfns_def split: option.splits dest!: map_of_SomeD) force

lemma check_job_outputs_state_of:
  "cs \<subseteq> state_of (check_job_outputs cs im jd state outs)"
proof (cases "check_job_outputs cs im jd state outs")
  case (Inl p)
  then show ?thesis
    using check_job_outputs_Inl_unchanged [of cs im jd state outs "fst p" "snd p"]
    by (cases p) (simp add: state_of_def)
next
  case (Inr c)
  then show ?thesis using check_job_outputs_grows [OF Inr] by (simp add: state_of_def)
qed

lemma finished_state_of_flat:
  "state_of (check_job_outputs cs im jd ''finished'' outs) \<subseteq> cs \<union> set (concat (map snd im))"
proof (cases "check_job_outputs cs im jd ''finished'' outs")
  case (Inl p)
  then show ?thesis
    using check_job_outputs_Inl_unchanged [of cs im jd "''finished''" outs "fst p" "snd p"]
    by (cases p) (simp add: state_of_def)
next
  case (Inr c)
  then have "c = cs \<union> spec_lfns im jd outs" by (simp add: finished_Inr_iff)
  then show ?thesis
    using spec_lfns_flat [of im jd outs] Inr by (auto simp: state_of_def)
qed

lemma classify_jobs_frame:
  "known_lfns (state_of (classify_jobs im jd outs st)) = known_lfns st
   \<and> io_log (state_of (classify_jobs im jd outs st)) = io_log st"
  by (auto simp: classify_jobs_def Let_def state_of_def split: sum.splits prod.splits)

lemma classify_jobs_failed_mono:
  "failed_job_outputs st \<subseteq> failed_job_outputs (state_of (classify_jobs im jd outs st))"
  using check_job_outputs_state_of [of "failed_job_outputs st" im jd "''failed''" "Some outs"]
  by (auto simp: classify_jobs_def Let_def state_of_def split: sum.splits prod.splits)

lemma classify_jobs_done_bounds:
  "done_lfns st \<subseteq> done_lfns (state_of (classify_jobs im jd outs st))
   \<and> done_lfns (state_of (classify_jobs im jd outs st))
       \<subseteq> done_lfns st \<union> set (concat (map snd im))"
  using check_job_outputs_state_of [of "done_lfns st" im jd "''finished''" "Some outs"]
        finished_state_of_flat [of "done_lfns st" im jd "Some outs"]
  by (auto simp: classify_jobs_def Let_def state_of_def split: sum.splits prod.splits)


lemma update_known_lfns_eq: "update_known_lfns known flat = known \<union> flat"
  by (auto simp: update_known_lfns_def Let_def)

lemma add_events_sets [simp]:
  "known_lfns (add_events evs st) = known_lfns st"
  "done_lfns (add_events evs st) = done_lfns st"
  "failed_job_outputs (add_events evs st) = failed_job_outputs st"
  "io_log (add_events evs st) = io_log st @ evs"
  by (simp_all add: add_events_def)

lemma add_events_twice: "add_events e2 (add_events e1 st) = add_events (e1 @ e2) st"
  by (simp add: add_events_def)

lemma add_events_known_update:
  "add_events evs (st\<lparr>known_lfns := k\<rparr>) = (add_events evs st)\<lparr>known_lfns := k\<rparr>"
  by (simp add: add_events_def)

lemma process_attempt_cases:
  obtains (err) e evs where
      "process_attempt w a cdn cd im st =
         Inl (e, add_events evs (st\<lparr>known_lfns := known_lfns st \<union> set (concat (map snd im))\<rparr>))"
  | (classify) jd outs evs where
      "process_attempt w a cdn cd im st =
         classify_jobs im jd outs
           (add_events evs (st\<lparr>known_lfns := known_lfns st \<union> set (concat (map snd im))\<rparr>))"
proof -
  let ?st3 = "st\<lparr>known_lfns := known_lfns st \<union> set (concat (map snd im))\<rparr>"
  obtain sres evs where gs: "get_status w (sample_dir a) (status_file a) = (sres, evs)"
    by (cases "get_status w (sample_dir a) (status_file a)")
  have "(\<exists>e evs. process_attempt w a cdn cd im st = Inl (e, add_events evs ?st3))
      \<or> (\<exists>jd outs evs. process_attempt w a cdn cd im st
             = classify_jobs im jd outs (add_events evs ?st3))"
    unfolding process_attempt_def Let_def update_known_lfns_eq gs prod.case
    by (simp only: add_events_twice split: sum.split) blast
  then show thesis using err classify by blast
qed

lemma process_attempt_sets:
  "known_lfns (state_of (process_attempt w a cdn cd im st))
     = known_lfns st \<union> set (concat (map snd im))
   \<and> failed_job_outputs st \<subseteq> failed_job_outputs (state_of (process_attempt w a cdn cd im st))
   \<and> done_lfns st \<subseteq> done_lfns (state_of (process_attempt w a cdn cd im st))
   \<and> done_lfns (state_of (process_attempt w a cdn cd im st))
       \<subseteq> done_lfns st \<union> set (concat (map snd im))"
proof (cases rule: process_attempt_cases [of w a cdn cd im st])
  case (err e evs)
  then show ?thesis by (simp add: state_of_def)
next
  case (classify jd outs evs)
  let ?s = "add_events evs (st\<lparr>known_lfns := known_lfns st \<union> set (concat (map snd im))\<rparr>)"
  show ?thesis
    using classify_jobs_frame [of im jd outs ?s] classify_jobs_failed_mono [of ?s im jd outs]
          classify_jobs_done_bounds [of ?s im jd outs]
    by (simp add: classify)
qed

lemma check_crab_directory_cases:
  obtains (skip) evs where "check_crab_directory w a st = Inr (add_events evs st)"
  | (attempt) cdn cd im evs where
      "check_crab_directory w a st = process_attempt w a cdn cd im (add_events evs st)"
proof -
  have "(\<exists>evs. check_crab_directory w a st = Inr (add_events evs st))
      \<or> (\<exists>cdn cd im evs. check_crab_directory w a st
            = process_attempt w a cdn cd im (add_events evs st))"
    unfolding check_crab_directory_def Let_def get_job_inputs_def
    by (simp only: add_events_twice split: if_split prod.split option.split) blast
  then show thesis using skip attempt by blast
qed

lemma check_crab_directory_sets:
  "known_lfns st \<subseteq> known_lfns (state_of (check_crab_directory w a st))
   \<and> failed_job_outputs st \<subseteq> failed_job_outputs (state_of (check_crab_directory w a st))
   \<and> done_lfns st \<subseteq> done_lfns (state_of (check_crab_directory w a st))
   \<and> (done_lfns st \<subseteq> known_lfns st \<longrightarrow>
        done_lfns (state_of (check_crab_directory w a st))
          \<subseteq> known_lfns (state_of (check_crab_directory w a st)))
   \<and> (finite (known_lfns st) \<longrightarrow> finite (known_lfns (state_of (check_crab_directory w a st))))"
proof (cases rule: check_crab_directory_cases [of w a st])
  case (skip evs)
  then show ?thesis by (simp add: state_of_def)
next
  case (attempt cdn cd im evs)
  show ?thesis
    using process_attempt_sets [of w a cdn cd im "add_events evs st"]
    by (auto simp: attempt)
qed

lemma cascade_sets:
  "known_lfns st \<subseteq> known_lfns (state_of (cascade w a atts st))
   \<and> failed_job_outputs st \<subseteq> failed_job_outputs (state_of (cascade w a atts st))
   \<and> done_lfns st \<subseteq> done_lfns (state_of (cascade w a atts st))
   \<and> (done_lfns st \<subseteq> known_lfns st \<longrightarrow>
        done_lfns (state_of (cascade w a atts st)) \<subseteq> known_lfns (state_of (cascade w a atts st)))
   \<and> (finite (known_lfns st) \<longrightarrow> finite (known_lfns (state_of (cascade w a atts st))))"
proof (induction atts arbitrary: st)
  case Nil
  then show ?case by (simp add: state_of_def)
next
  case (Cons p atts)
  obtain sfx sf where p: "p = (sfx, sf)" by (cases p)
  let ?a = "a\<lparr>dir_suffix := sfx, status_file := sf\<rparr>"
  note step = check_crab_directory_sets [of st w ?a]
  show ?case
  proof (cases "check_crab_directory w ?a st")
    case (Inl e)
    then show ?thesis using step by (simp add: p)
  next
    case (Inr st1)
    then have s1: "state_of (check_crab_directory w ?a st) = st1" by (simp add: state_of_def)
    show ?thesis
      using step Cons.IH [of st1] unfolding s1 by (simp add: p Inr) blast
  qed
qed

section \<open>The claims\<close>

subsection \<open>C1: a finished LFN that is already done\<close>




subsection \<open>C3: a finished job with no output on storage\<close>

text \<open>
  C3. When the remote output set of an attempt is not empty and the classification of
  the attempt returns, a job declared finished with no path ending in its output name
  is not among the selected jobs, and the done set grows by the LFNs of the selected
  jobs only. An LFN that was known and not done, and that no selected job read, is
  therefore still known and not done after the attempt, and the report lists the
  known LFNs that are not done as missing.
\<close>

theorem finished_without_output_not_done:
  assumes "classify_jobs im jd outs st = Inr st'" and "outs \<noteq> {}"
    and "job_state jd x = Inr ''finished''" and "\<not> has_output outs x"
  shows "x \<notin> spec_selected jd ''finished'' (Some outs)
       \<and> done_lfns st' = done_lfns st \<union> spec_lfns im jd (Some outs)
       \<and> known_lfns st - (done_lfns st \<union> spec_lfns im jd (Some outs))
           \<subseteq> known_lfns st' - done_lfns st'
       \<and> missing_lfns (make_report True n st')
           = Some ((known_lfns st' - done_lfns st') \<union> (done_lfns st' - known_lfns st'))"
proof -
  obtain F' D' where
    d: "check_job_outputs (done_lfns st) im jd ''finished'' (Some outs) = Inr D'"
    and st': "st' = st\<lparr>failed_job_outputs := F', done_lfns := D'\<rparr>"
    using classify_jobs_Inr [OF assms(1)] by blast
  have D': "D' = done_lfns st \<union> spec_lfns im jd (Some outs)"
    using d by (simp add: finished_Inr_iff)
  have "x \<notin> spec_selected jd ''finished'' (Some outs)"
    using assms(2,4) by (simp add: spec_selected_def)
  then show ?thesis
    using D' by (auto simp: st' make_report_def Let_def)
qed

text \<open>In the sample, job 3 finished with no output, and its input \<open>C\<close> is missing.\<close>

theorem finished_without_output_not_done_witness:
  "classify_jobs ex_inputs ex_details ex_outputs
       (ex_state {''/store/A'', ''/store/B'', ''/store/C''})
     = Inr \<lparr>known_lfns = {''/store/A'', ''/store/B'', ''/store/C''},
            done_lfns = {''/store/A''},
            failed_job_outputs = {''srm://se/pnfs/Camp/crab_X/230101_1200/0000/nano_2.root''},
            io_log = []\<rparr>
   \<and> job_state ex_details ''3'' = Inr ''finished''
   \<and> map_of ex_inputs ''3'' = Some [''/store/C'']
   \<and> ''3'' \<notin> spec_selected ex_details ''finished'' (Some ex_outputs)
   \<and> missing_lfns (make_report True 3
        \<lparr>known_lfns = {''/store/A'', ''/store/B'', ''/store/C''},
         done_lfns = {''/store/A''},
         failed_job_outputs = {''srm://se/pnfs/Camp/crab_X/230101_1200/0000/nano_2.root''},
         io_log = []\<rparr>) = Some {''/store/B'', ''/store/C''}"
proof -
  let ?st' = "\<lparr>known_lfns = {''/store/A'', ''/store/B'', ''/store/C''},
            done_lfns = {''/store/A''},
            failed_job_outputs = {''srm://se/pnfs/Camp/crab_X/230101_1200/0000/nano_2.root''},
            io_log = []\<rparr>"
  have c: "classify_jobs ex_inputs ex_details ex_outputs
       (ex_state {''/store/A'', ''/store/B'', ''/store/C''}) = Inr ?st'"
    by code_simp
  have ne: "ex_outputs \<noteq> {}" by code_simp
  have js: "job_state ex_details ''3'' = Inr ''finished''" by code_simp
  have im: "map_of ex_inputs ''3'' = Some [''/store/C'']" by code_simp
  have no: "\<not> has_output ex_outputs ''3''" by code_simp
  note t = finished_without_output_not_done [OF c ne js no, of 3]
  from t have sel: "''3'' \<notin> spec_selected ex_details ''finished'' (Some ex_outputs)"
    by blast
  from t have "missing_lfns (make_report True 3 ?st')
      = Some ((known_lfns ?st' - done_lfns ?st') \<union> (done_lfns ?st' - known_lfns ?st'))"
    by blast
  moreover have "(known_lfns ?st' - done_lfns ?st') \<union> (done_lfns ?st' - known_lfns ?st')
      = {''/store/B'', ''/store/C''}"
    by code_simp
  ultimately have mm: "missing_lfns (make_report True 3 ?st') = Some {''/store/B'', ''/store/C''}"
    by (rule trans [OF _ arg_cong [of _ _ Some]])
  show ?thesis
    using c js im sel mm by blast
qed

subsection \<open>C4: outputs of failed jobs\<close>

text \<open>
  C4. After the classification of the failed jobs, a path is in the set of anomalous
  outputs iff it was there before, or it is in the remote output set and ends in the
  output name of a job whose declared state is \<open>failed\<close>; a failed job with no such
  path adds nothing. The set never loses an element, in one attempt or over the
  cascade, whether the call returns or raises.
\<close>

theorem anomalous_outputs_iff:
  "(check_job_outputs F im jd ''failed'' (Some outs) = Inr F' \<longrightarrow>
      (\<forall>p. p \<in> F' \<longleftrightarrow>
           p \<in> F \<or> (p \<in> outs \<and>
                      (\<exists>i. job_state jd i = Inr ''failed'' \<and> endswith p (output_name i)))))
   \<and> (classify_jobs im jd outs st = Inr st' \<longrightarrow>
        (\<forall>p. p \<in> failed_job_outputs st' \<longleftrightarrow>
           p \<in> failed_job_outputs st \<or> (p \<in> outs \<and>
                      (\<exists>i. job_state jd i = Inr ''failed'' \<and> endswith p (output_name i)))))
   \<and> failed_job_outputs st \<subseteq> failed_job_outputs (state_of (check_crab_directory w a st))
   \<and> failed_job_outputs st \<subseteq> failed_job_outputs (state_of (cascade w a atts st))"
proof -
  have one: "\<forall>p. p \<in> G' \<longleftrightarrow>
           p \<in> G \<or> (p \<in> outs \<and>
                      (\<exists>i. job_state jd i = Inr ''failed'' \<and> endswith p (output_name i)))"
    if "check_job_outputs G im jd ''failed'' (Some outs) = Inr G'" for G G'
    using failed_Some_Inr [OF that] by blast
  have two: "\<forall>p. p \<in> failed_job_outputs st' \<longleftrightarrow>
           p \<in> failed_job_outputs st \<or> (p \<in> outs \<and>
                      (\<exists>i. job_state jd i = Inr ''failed'' \<and> endswith p (output_name i)))"
    if c: "classify_jobs im jd outs st = Inr st'"
  proof -
    obtain G' D' where
      f: "check_job_outputs (failed_job_outputs st) im jd ''failed'' (Some outs) = Inr G'"
      and st': "st' = st\<lparr>failed_job_outputs := G', done_lfns := D'\<rparr>"
      using classify_jobs_Inr [OF c] by blast
    show ?thesis using one [OF f] by (simp add: st')
  qed
  show ?thesis
    using one [of F F'] two check_crab_directory_sets [of st w a] cascade_sets [of st w a atts]
    by blast
qed

text \<open>In the sample, the output of the failed job 2 is the one anomalous output.\<close>

theorem anomalous_outputs_iff_witness:
  "check_job_outputs {} ex_inputs ex_details ''failed'' (Some ex_outputs)
     = Inr {''srm://se/pnfs/Camp/crab_X/230101_1200/0000/nano_2.root''}
   \<and> job_state ex_details ''2'' = Inr ''failed''
   \<and> endswith ''srm://se/pnfs/Camp/crab_X/230101_1200/0000/nano_2.root'' (output_name ''2'')
   \<and> ''srm://se/pnfs/Camp/crab_X/230101_1200/0000/nano_1.root''
        \<notin> {''srm://se/pnfs/Camp/crab_X/230101_1200/0000/nano_2.root''}
   \<and> failed_job_outputs (state_of (cascade (ex_world ex_all_present) ex_args ex_attempts
         (ex_state {})))
       = {''srm://se/pnfs/Camp/crab_X/230101_1200/0000/nano_2.root''}"
proof -
  have c: "check_job_outputs {} ex_inputs ex_details ''failed'' (Some ex_outputs)
     = Inr {''srm://se/pnfs/Camp/crab_X/230101_1200/0000/nano_2.root''}"
    by code_simp
  have j: "job_state ex_details ''2'' = Inr ''failed''" by code_simp
  have e: "endswith ''srm://se/pnfs/Camp/crab_X/230101_1200/0000/nano_2.root'' (output_name ''2'')"
    by code_simp
  have n: "''srm://se/pnfs/Camp/crab_X/230101_1200/0000/nano_1.root''
        \<notin> {''srm://se/pnfs/Camp/crab_X/230101_1200/0000/nano_2.root''}"
    by code_simp
  have k: "failed_job_outputs (state_of (cascade (ex_world ex_all_present) ex_args ex_attempts
         (ex_state {})))
       = {''srm://se/pnfs/Camp/crab_X/230101_1200/0000/nano_2.root''}"
    by code_simp
  show ?thesis
    using anomalous_outputs_iff [of "{}" ex_inputs ex_details ex_outputs
        "{''srm://se/pnfs/Camp/crab_X/230101_1200/0000/nano_2.root''}"
        "ex_state {}" "ex_state {}" "ex_world ex_all_present" ex_args ex_attempts]
      c j e n k
    by blast
qed

subsection \<open>C10: the failed branch without a remote output set\<close>

text \<open>
  C10. With \<open>state = "failed"\<close> and \<open>job_outputs\<close> left at \<open>None\<close> the call always
  raises and changes nothing: \<open>TypeError\<close> when every job record has a \<open>"State"\<close>
  (a \<open>KeyError\<close> of the first filter comes first otherwise). With the empty set in
  the place of \<open>None\<close> the same call returns.
\<close>

theorem failed_without_outputs_raises:
  "(\<exists>e. check_job_outputs cs im jd ''failed'' None = Inl (e, cs))
   \<and> ((\<forall>x \<in> fst ` set jd. \<not> isl (job_state jd x)) \<longrightarrow>
        check_job_outputs cs im jd ''failed'' None = Inl (TypeError, cs)
        \<and> check_job_outputs cs im jd ''failed'' (Some {}) = Inr cs)"
proof -
  have "check_job_outputs cs im jd ''failed'' (Some {}) = Inr cs"
    if "\<forall>x \<in> fst ` set jd. \<not> isl (job_state jd x)"
    using failed_Some_total [of jd cs im "{}"] failed_Some_Inr [of cs im jd "{}"] that
    by (auto simp: not_isl_iff)
  then show ?thesis
    by (auto simp: failed_None not_isl_iff)
qed

theorem failed_without_outputs_raises_witness:
  "check_job_outputs {} ex_inputs ex_details ''failed'' None = Inl (TypeError, {})
   \<and> check_job_outputs {} ex_inputs ex_details ''failed'' (Some {}) = Inr {}"
proof -
  have "\<forall>x \<in> fst ` set ex_details. \<not> isl (job_state ex_details x)" by code_simp
  then show ?thesis
    using failed_without_outputs_raises [of "{}" ex_inputs ex_details] by blast
qed

subsection \<open>C7: the provenance of the status\<close>

lemma normpath_nonempty: "normpath p \<noteq> []"
  by (simp add: normpath_def Let_def)

lemma abspath_nonempty: "abspath cwd p \<noteq> []"
  by (simp add: abspath_def normpath_nonempty)

lemma check_status_Inl: "check_status cwd st cd = Inl e \<Longrightarrow> e = ValueError"
  by (auto simp: check_status_def Let_def split: if_splits)

text \<open>
  C7. \<open>check_status\<close> raises \<open>ValueError\<close> iff the \<open>project_dir\<close> of the status is
  absent or is not the absolute path of the attempt directory, and returns iff it is
  that path. (An empty \<open>project_dir\<close> is rejected as an absent one is; no absolute
  path is empty.) A status that fails the check ends the attempt with
  \<open>ValueError\<close>.
\<close>

theorem provenance_check_iff:
  "(check_status cwd st cd = Inl ValueError \<longleftrightarrow>
      (project_dir st = None \<or> project_dir st \<noteq> Some (abspath cwd cd)))
   \<and> (check_status cwd st cd = Inr () \<longleftrightarrow> project_dir st = Some (abspath cwd cd))
   \<and> (get_status w (sample_dir a) (status_file a) = (Inr st, evs)
        \<and> project_dir st \<noteq> Some (abspath (getcwd w) crab_dir) \<longrightarrow>
        (\<exists>s. process_attempt w a cdn crab_dir im st0 = Inl (ValueError, s)))"
proof -
  have 1: "check_status c st d = Inl ValueError \<longleftrightarrow>
      (project_dir st = None \<or> project_dir st \<noteq> Some (abspath c d))" for c d
    using abspath_nonempty [of c d] by (auto simp: check_status_def Let_def)
  have 2: "check_status c st d = Inr () \<longleftrightarrow> project_dir st = Some (abspath c d)" for c d
    using abspath_nonempty [of c d] by (auto simp: check_status_def Let_def)
  have 3: "\<exists>s. process_attempt w a cdn crab_dir im st0 = Inl (ValueError, s)"
    if g: "get_status w (sample_dir a) (status_file a) = (Inr st, evs)"
      and p: "project_dir st \<noteq> Some (abspath (getcwd w) crab_dir)"
  proof -
    have "check_status (getcwd w) st crab_dir = Inl ValueError"
      using p 1 [of "getcwd w" crab_dir] by blast
    then show ?thesis
      by (simp add: process_attempt_def Let_def g)
  qed
  show ?thesis using 1 [of cwd cd] 2 [of cwd cd] 3 by blast
qed

text \<open>
  The status of the first attempt passes for its directory; the status of the recovery
  attempt, and a status with no \<open>project_dir\<close>, fail for it.
\<close>

theorem provenance_check_iff_witness:
  "check_status ''/work'' ex_status ''data/X/crab_X'' = Inr ()
   \<and> check_status ''/work'' ex_status_recovery ''data/X/crab_X'' = Inl ValueError
   \<and> check_status ''/work'' (ex_status\<lparr>project_dir := None\<rparr>) ''data/X/crab_X'' = Inl ValueError"
proof -
  have a: "project_dir ex_status = Some (abspath ''/work'' ''data/X/crab_X'')" by code_simp
  have b: "project_dir ex_status_recovery \<noteq> Some (abspath ''/work'' ''data/X/crab_X'')"
    by code_simp
  have c: "project_dir (ex_status\<lparr>project_dir := None\<rparr>) = None" by simp
  note ok = provenance_check_iff
    [of "''/work''" ex_status "''data/X/crab_X''", THEN conjunct2, THEN conjunct1]
  note bad = provenance_check_iff
    [of "''/work''" ex_status_recovery "''data/X/crab_X''", THEN conjunct1]
  note none = provenance_check_iff
    [of "''/work''" "ex_status\<lparr>project_dir := None\<rparr>" "''data/X/crab_X''", THEN conjunct1]
  show ?thesis
    using ok bad none a b c by blast
qed

subsection \<open>C9: the samples that need attention\<close>

text \<open>
  C9. A sample is in the second table of \<open>main\<close> iff its report has a missing count
  other than 0, or a catalogue total that is neither the sentinel \<open>-1\<close> nor the
  observed total.
\<close>

theorem flagged_samples_iff:
  "(x \<in> set (samples_with_missing_lfns meta_infos) \<longleftrightarrow>
      (\<exists>r. map_of meta_infos x = Some r \<and>
           (missing r \<noteq> 0 \<or> (das_total r \<noteq> - 1 \<and> das_total r \<noteq> total r))))
   \<and> (main w m = Inr (meta_infos, flagged) \<longrightarrow> flagged = samples_with_missing_lfns meta_infos)"
proof -
  have "x \<in> fst ` set meta_infos" if "map_of meta_infos x = Some r" for r
    using map_of_SomeD [OF that] by (force intro: rev_image_eqI)
  then have "x \<in> set (samples_with_missing_lfns meta_infos) \<longleftrightarrow>
      (\<exists>r. map_of meta_infos x = Some r \<and>
           (missing r \<noteq> 0 \<or> (das_total r \<noteq> - 1 \<and> das_total r \<noteq> total r)))"
    by (auto simp: samples_with_missing_lfns_def needs_attention_def split: option.splits)
  moreover have "flagged = samples_with_missing_lfns meta_infos"
    if "main w m = Inr (meta_infos, flagged)"
    using that by (auto simp: main_def split: sum.splits prod.splits)
  ultimately show ?thesis by blast
qed

theorem flagged_samples_iff_witness:
  "''incomplete'' \<in> set (samples_with_missing_lfns ex_meta_infos)
   \<and> ''mismatch'' \<in> set (samples_with_missing_lfns ex_meta_infos)
   \<and> ''good'' \<notin> set (samples_with_missing_lfns ex_meta_infos)
   \<and> ''unknown_total'' \<notin> set (samples_with_missing_lfns ex_meta_infos)
   \<and> samples_with_missing_lfns ex_meta_infos = [''incomplete'', ''mismatch'']"
proof -
  have 1: "''incomplete'' \<in> set (samples_with_missing_lfns ex_meta_infos)"
    using flagged_samples_iff [of "''incomplete''" ex_meta_infos, THEN conjunct1]
    by (simp add: ex_meta_infos_def ex_report_def)
  have 2: "''mismatch'' \<in> set (samples_with_missing_lfns ex_meta_infos)"
    using flagged_samples_iff [of "''mismatch''" ex_meta_infos, THEN conjunct1]
    by (simp add: ex_meta_infos_def ex_report_def)
  have 3: "''good'' \<notin> set (samples_with_missing_lfns ex_meta_infos)"
    using flagged_samples_iff [of "''good''" ex_meta_infos, THEN conjunct1]
    by (simp add: ex_meta_infos_def ex_report_def)
  have 4: "''unknown_total'' \<notin> set (samples_with_missing_lfns ex_meta_infos)"
    using flagged_samples_iff [of "''unknown_total''" ex_meta_infos, THEN conjunct1]
    by (simp add: ex_meta_infos_def ex_report_def)
  have 5: "samples_with_missing_lfns ex_meta_infos = [''incomplete'', ''mismatch'']"
    by code_simp
  show ?thesis using 1 2 3 4 5 by blast
qed

subsection \<open>C2: done is within known, and missing is the rest\<close>

lemma get_dbs_lfns_finite: "finite (get_dbs_lfns w k)"
  by (simp add: get_dbs_lfns_def split: option.splits)

lemma process_sample_Inr:
  assumes "process_sample w m dir log = Inr (sname, rep, st)"
  shows "done_lfns st \<subseteq> known_lfns st \<and> finite (known_lfns st)
       \<and> (\<exists>n. rep = make_report (dump_filelists m) n st)"
proof -
  let ?key = "load_das_key w (basename (strip_sep dir))"
  let ?st0 = "\<lparr>known_lfns = get_dbs_lfns w ?key, done_lfns = {}, failed_job_outputs = {},
               io_log = log\<rparr>"
  obtain a where c: "cascade w a (zip (suffices m) (status_files m)) ?st0 = Inr st"
    and r: "\<exists>n. rep = make_report (dump_filelists m) n st"
    using assms by (auto simp: process_sample_def Let_def split: sum.splits)
  have "state_of (cascade w a (zip (suffices m) (status_files m)) ?st0) = st"
    by (simp add: c state_of_def)
  then show ?thesis
    using cascade_sets [of ?st0 w a "zip (suffices m) (status_files m)"] r
    by (simp add: get_dbs_lfns_finite)
qed

lemma report_counts:
  assumes "done_lfns st \<subseteq> known_lfns st" and "finite (known_lfns st)"
    and "rep = make_report dump n st"
  shows "missing rep = int (card (known_lfns st - done_lfns st))
       \<and> (missing rep = 0 \<longleftrightarrow> known_lfns st \<subseteq> done_lfns st)
       \<and> (dump \<longrightarrow> missing_lfns rep = Some (known_lfns st - done_lfns st))
       \<and> done_count rep \<le> total rep
       \<and> missing rep = total rep - done_count rep"
proof -
  have d: "done_lfns st - known_lfns st = {}" using assms(1) by blast
  have f: "finite (done_lfns st)" using assms(1,2) by (rule finite_subset)
  have c: "card (known_lfns st - done_lfns st) = card (known_lfns st) - card (done_lfns st)"
    using card_Diff_subset [OF f assms(1)] .
  have le: "card (done_lfns st) \<le> card (known_lfns st)"
    using card_mono [OF assms(2,1)] .
  have z: "card (known_lfns st - done_lfns st) = 0 \<longleftrightarrow> known_lfns st \<subseteq> done_lfns st"
    using assms(2) by (simp add: Diff_eq_empty_iff)
  show ?thesis
    using c le z by (simp add: assms(3) make_report_def Let_def d of_nat_diff)
qed

text \<open>
  C2. When the cascade of a sample ends without an exception, every done LFN is known;
  the missing count of the report is the number of known LFNs that are not done (the
  symmetric difference the source computes has no other element), it is 0 iff every
  known LFN is done, it is the total minus the done count, and with
  \<open>dump_filelists\<close> the missing list is the known LFNs that are not done.
\<close>

theorem done_within_known_missing_rest:
  assumes "process_sample w m dir log = Inr (sname, rep, st)"
  shows "done_lfns st \<subseteq> known_lfns st
       \<and> missing rep = int (card (known_lfns st - done_lfns st))
       \<and> (missing rep = 0 \<longleftrightarrow> known_lfns st \<subseteq> done_lfns st)
       \<and> (dump_filelists m \<longrightarrow> missing_lfns rep = Some (known_lfns st - done_lfns st))
       \<and> missing rep = total rep - done_count rep"
proof -
  obtain n where "done_lfns st \<subseteq> known_lfns st" "finite (known_lfns st)"
    "rep = make_report (dump_filelists m) n st"
    using process_sample_Inr [OF assms] by blast
  then show ?thesis using report_counts [of st rep "dump_filelists m" n] by blast
qed

text \<open>The sample with both attempts on disk: four LFNs known, two done, two missing.\<close>

theorem done_within_known_missing_rest_witness:
  "process_sample (ex_world ex_all_present) ex_main_args ''/data/X/'' [PathExists ''/data/X/'']
     = Inr (''X'', ex_final_report, ex_final_state (PathExists ''/data/X/'' # ex_final_log))
   \<and> done_lfns (ex_final_state (PathExists ''/data/X/'' # ex_final_log))
        \<subseteq> known_lfns (ex_final_state (PathExists ''/data/X/'' # ex_final_log))
   \<and> missing ex_final_report = 2
   \<and> missing ex_final_report = total ex_final_report - done_count ex_final_report
   \<and> missing_lfns ex_final_report = Some {''/store/B'', ''/store/C''}"
proof -
  have e: "process_sample (ex_world ex_all_present) ex_main_args ''/data/X/''
       [PathExists ''/data/X/'']
     = Inr (''X'', ex_final_report, ex_final_state (PathExists ''/data/X/'' # ex_final_log))"
    by code_simp
  note t = done_within_known_missing_rest [OF e]
  have m: "missing ex_final_report = 2" by (simp add: ex_final_report_def)
  have l: "missing_lfns ex_final_report = Some {''/store/B'', ''/store/C''}"
    by (simp add: ex_final_report_def)
  show ?thesis using e t m l by blast
qed

subsection \<open>C5: an attempt directory that does not exist\<close>








subsection \<open>C6: LFNs that are not known\<close>











subsection \<open>C8: the blocks that are listed\<close>








end
